theory Spec2Isabelle
  imports Main "HOL-Library.Word"
begin

unbundle bit_operations_syntax

section \<open>Machine words\<close>

text \<open>
  The three ciphers work on the fixed-width unsigned integers of C. They are modelled as
  words of that width: \<open>push_bit\<close> is \<open><<\<close> (bits shifted out are lost), \<open>drop_bit\<close> is
  the logical \<open>>>\<close>, \<open>ucast\<close> is a conversion between widths (it truncates when the
  target is narrower and zero-extends when it is wider).
\<close>

type_synonym u8 = "8 word"
type_synonym u16 = "16 word"
type_synonym u32 = "32 word"
type_synonym u64 = "64 word"

section \<open>SIMON (SIMON.c)\<close>

subsection \<open>Word primitives and the round function\<close>

definition ROL_64 :: "u64 \<Rightarrow> nat \<Rightarrow> u64" where
  "ROL_64 x n = push_bit n x OR drop_bit (64 - n) x"

definition ROR_64 :: "u64 \<Rightarrow> nat \<Rightarrow> u64" where
  "ROR_64 x n = drop_bit n x OR push_bit (64 - n) x"

text \<open>The function \<open>f\<close> of SIMON.c.\<close>

definition SIMON_f :: "u64 \<Rightarrow> u64" where
  "SIMON_f x = (ROL_64 x 1 AND ROL_64 x 8) XOR ROL_64 x 2"

text \<open>
  \<open>R2\<close> updates the two words its pointer arguments designate; the model takes the pair
  (first pointee, second pointee) and returns the updated pair in the same order.
\<close>

definition R2 :: "u64 \<times> u64 \<Rightarrow> u64 \<Rightarrow> u64 \<Rightarrow> u64 \<times> u64" where
  "R2 xy k l =
     (case xy of (x, y) \<Rightarrow>
        let y1 = y XOR SIMON_f x;
            y2 = y1 XOR k;
            x1 = x XOR SIMON_f y2;
            x2 = x1 XOR l
        in (x2, y2))"

subsection \<open>Context and key schedule\<close>

text \<open>
  Modelled from the spec: the struct \<open>SimonContext\<close> is declared in SIMON.h, which is not
  among the sources. The spec describes a cipher context as a round-key schedule (for
  SIMON 68 to 72 words of 64 bits) paired with the key-size-dependent count; SIMON.c
  uses the fields \<open>nrSubkeys\<close> and \<open>subkeys[0..71]\<close>. The array is a list, the count a
  natural number (SIMON.c only ever stores 68, 69 or 72 in it).
\<close>

record SimonContext =
  nrSubkeys :: nat
  subkeys :: "u64 list"

definition SIMON_c :: u64 where
  "SIMON_c = 0xfffffffffffffffc"

text \<open>One iteration of the loop of the 128-bit branch, on (subkeys, z).\<close>

definition init128_step :: "nat \<Rightarrow> u64 list \<times> u64 \<Rightarrow> u64 list \<times> u64" where
  "init128_step i kz =
     (case kz of (ks, z) \<Rightarrow>
        (ks[i := SIMON_c XOR (z AND 1) XOR ks ! (i - 2)
                  XOR ROR_64 (ks ! (i - 1)) 3 XOR ROR_64 (ks ! (i - 1)) 4],
         drop_bit 1 z))"

definition init192_step :: "nat \<Rightarrow> u64 list \<times> u64 \<Rightarrow> u64 list \<times> u64" where
  "init192_step i kz =
     (case kz of (ks, z) \<Rightarrow>
        (ks[i := SIMON_c XOR (z AND 1) XOR ks ! (i - 3)
                  XOR ROR_64 (ks ! (i - 1)) 3 XOR ROR_64 (ks ! (i - 1)) 4],
         drop_bit 1 z))"

definition init256_step :: "nat \<Rightarrow> u64 list \<times> u64 \<Rightarrow> u64 list \<times> u64" where
  "init256_step i kz =
     (case kz of (ks, z) \<Rightarrow>
        (ks[i := SIMON_c XOR (z AND 1) XOR ks ! (i - 4)
                  XOR ROR_64 (ks ! (i - 1)) 3 XOR ks ! (i - 3)
                  XOR ROR_64 (ks ! (i - 1)) 4 XOR ROR_64 (ks ! (i - 3)) 1],
         drop_bit 1 z))"

text \<open>The closed form of the last four subkeys of the 256-bit branch; \<open>d\<close> is 0 or 1.\<close>

definition tail256 :: "u64 list \<Rightarrow> nat \<Rightarrow> u64 \<Rightarrow> u64" where
  "tail256 ks i d =
     SIMON_c XOR d XOR ks ! (i - 4) XOR ROR_64 (ks ! (i - 1)) 3 XOR ks ! (i - 3)
       XOR ROR_64 (ks ! (i - 1)) 4 XOR ROR_64 (ks ! (i - 3)) 1"

definition SIMON_init_128 :: "SimonContext \<Rightarrow> u64 list \<Rightarrow> SimonContext" where
  "SIMON_init_128 context key =
     (let ks = (subkeys context)[0 := key ! 1];
          ks = ks[1 := key ! 0];
          ks = fst (fold init128_step [2..<66] (ks, 0x7369f885192c0ef5));
          ks = ks[66 := SIMON_c XOR 1 XOR ks ! 64
                        XOR ROR_64 (ks ! 65) 3 XOR ROR_64 (ks ! 65) 4];
          ks = ks[67 := SIMON_c XOR ks ! 65
                        XOR ROR_64 (ks ! 66) 3 XOR ROR_64 (ks ! 66) 4]
      in \<lparr>nrSubkeys = 68, subkeys = ks\<rparr>)"

definition SIMON_init_192 :: "SimonContext \<Rightarrow> u64 list \<Rightarrow> SimonContext" where
  "SIMON_init_192 context key =
     (let ks = (subkeys context)[0 := key ! 2];
          ks = ks[1 := key ! 1];
          ks = ks[2 := key ! 0];
          ks = fst (fold init192_step [3..<67] (ks, 0xfc2ce51207a635db));
          ks = ks[67 := SIMON_c XOR ks ! 64
                        XOR ROR_64 (ks ! 66) 3 XOR ROR_64 (ks ! 66) 4];
          ks = ks[68 := SIMON_c XOR 1 XOR ks ! 65
                        XOR ROR_64 (ks ! 67) 3 XOR ROR_64 (ks ! 67) 4]
      in \<lparr>nrSubkeys = 69, subkeys = ks\<rparr>)"

definition SIMON_init_256 :: "SimonContext \<Rightarrow> u64 list \<Rightarrow> SimonContext" where
  "SIMON_init_256 context key =
     (let ks = (subkeys context)[0 := key ! 3];
          ks = ks[1 := key ! 2];
          ks = ks[2 := key ! 1];
          ks = ks[3 := key ! 0];
          ks = fst (fold init256_step [4..<68] (ks, 0xfdc94c3a046d678b));
          ks = ks[68 := tail256 ks 68 0];
          ks = ks[69 := tail256 ks 69 1];
          ks = ks[70 := tail256 ks 70 0];
          ks = ks[71 := tail256 ks 71 0]
      in \<lparr>nrSubkeys = 72, subkeys = ks\<rparr>)"

text \<open>
  \<open>SIMON_init\<close> writes through its context pointer: the model takes the context as it
  was and returns it updated. The key is the array behind the \<open>uint64_t*\<close> argument;
  \<open>keyLen\<close> is a \<open>uint16_t\<close>. The function returns nothing and has no error path.
\<close>

definition SIMON_init :: "SimonContext \<Rightarrow> u64 list \<Rightarrow> u16 \<Rightarrow> SimonContext" where
  "SIMON_init context key keyLen =
     (if keyLen = 128 then SIMON_init_128 context key
      else if keyLen = 192 then SIMON_init_192 context key
      else SIMON_init_256 context key)"

subsection \<open>Encryption and decryption\<close>

text \<open>
  The loop \<open>for (i = ...; i < n; i += 2) R2(&x, &y, subkeys[i], subkeys[i + 1])\<close>. The
  counter is a natural number: with the counts 68 and 72 that \<open>SIMON_init\<close> stores, the
  \<open>uint8_t\<close> counter of the source never wraps.
\<close>

function SIMON_enc_loop :: "nat \<Rightarrow> nat \<Rightarrow> u64 list \<Rightarrow> u64 \<times> u64 \<Rightarrow> u64 \<times> u64" where
  "SIMON_enc_loop i n ks xy =
     (if i < n then SIMON_enc_loop (i + 2) n ks (R2 xy (ks ! i) (ks ! (i + 1))) else xy)"
  by pat_completeness auto
termination
  by (relation "measure (\<lambda>(i, n, ks, xy). n - i)") auto

text \<open>
  The loop \<open>for (i = ...; i >= 0; i -= 2) R2(&y, &x, subkeys[i], subkeys[i - 1])\<close> with
  its signed counter. \<open>R2\<close> receives the pointers swapped, so it is given the pair
  \<open>(y, x)\<close> and its result is read back in that order.
\<close>

function SIMON_dec_loop :: "int \<Rightarrow> u64 list \<Rightarrow> u64 \<times> u64 \<Rightarrow> u64 \<times> u64" where
  "SIMON_dec_loop i ks xy =
     (if 0 \<le> i then
        (case xy of (x, y) \<Rightarrow>
           (case R2 (y, x) (ks ! nat i) (ks ! nat (i - 1)) of (y', x') \<Rightarrow>
              SIMON_dec_loop (i - 2) ks (x', y')))
      else xy)"
  by pat_completeness auto
termination
  by (relation "measure (\<lambda>(i, ks, xy). nat (i + 1))") auto

definition SIMON_encrypt :: "SimonContext \<Rightarrow> u64 \<times> u64 \<Rightarrow> u64 \<times> u64" where
  "SIMON_encrypt context block =
     (if nrSubkeys context = 69 then
        (case SIMON_enc_loop 0 68 (subkeys context) block of (x, y) \<Rightarrow>
           let y1 = y XOR SIMON_f x;
               y2 = y1 XOR subkeys context ! 68
           in (y2, x))
      else SIMON_enc_loop 0 (nrSubkeys context) (subkeys context) block)"

definition SIMON_decrypt :: "SimonContext \<Rightarrow> u64 \<times> u64 \<Rightarrow> u64 \<times> u64" where
  "SIMON_decrypt context block =
     (if nrSubkeys context = 69 then
        (case block of (x, y) \<Rightarrow>
           let t = y;
               y1 = x;
               x1 = t;
               y2 = y1 XOR subkeys context ! 68;
               y3 = y2 XOR SIMON_f x1
           in SIMON_dec_loop 67 (subkeys context) (x1, y3))
      else SIMON_dec_loop (int (nrSubkeys context) - 1) (subkeys context) block)"

section \<open>PRESENT (PRESENT.c)\<close>

subsection \<open>Tables\<close>

definition NR_ROUNDS :: nat where
  "NR_ROUNDS = 31"

definition sbox :: "u8 list" where
  "sbox = [0xc, 0x5, 0x6, 0xb, 0x9, 0x0, 0xa, 0xd, 0x3, 0xe, 0xf, 0x8, 0x4, 0x7, 0x1, 0x2]"

definition isbox :: "u8 list" where
  "isbox = [0x5, 0xe, 0xf, 0x8, 0xc, 0x1, 0x2, 0xd, 0xb, 0x4, 0x6, 0x3, 0x0, 0x7, 0x9, 0xa]"

text \<open>The permutation table \<open>p\<close> of PRESENT.c.\<close>

definition PRESENT_p :: "nat list" where
  "PRESENT_p =
    [0, 16, 32, 48, 1, 17, 33, 49, 2, 18, 34, 50, 3, 19, 35, 51,
     4, 20, 36, 52, 5, 21, 37, 53, 6, 22, 38, 54, 7, 23, 39, 55,
     8, 24, 40, 56, 9, 25, 41, 57, 10, 26, 42, 58, 11, 27, 43, 59,
     12, 28, 44, 60, 13, 29, 45, 61, 14, 30, 46, 62, 15, 31, 47, 63]"

subsection \<open>Context and key schedule\<close>

text \<open>
  Modelled from the spec: the struct \<open>PresentContext\<close> is declared in PRESENT.h, which is
  not among the sources. The spec gives PRESENT a schedule of 32 round keys of 64 bits;
  PRESENT.c uses the one field \<open>roundKeys[0..31]\<close>.
\<close>

record PresentContext =
  roundKeys :: "u64 list"

text \<open>One iteration of the 80-bit loop, on (keyHigh, keyLow, roundKeys).\<close>

definition init80_step :: "nat \<Rightarrow> u64 \<times> u64 \<times> u64 list \<Rightarrow> u64 \<times> u64 \<times> u64 list" where
  "init80_step i st =
     (case st of (keyHigh, keyLow, rks) \<Rightarrow>
        let temp = keyHigh;
            keyHigh1 = drop_bit 3 keyLow AND 0xffff;
            keyLow1 = push_bit 61 keyLow OR push_bit 45 temp OR drop_bit 19 keyLow;
            temp1 = (ucast (sbox ! unat (drop_bit 12 keyHigh1 AND 0xf)) :: u64);
            keyHigh2 = (keyHigh1 AND 0x0fff) OR push_bit 12 temp1;
            keyLow2 = keyLow1 XOR push_bit 15 (of_nat i)
        in (keyHigh2, keyLow2, rks[i := push_bit 48 keyHigh2 OR drop_bit 16 keyLow2]))"

text \<open>
  One iteration of the 128-bit loop. The substituted nibbles are OR-ed into \<open>keyHigh\<close>
  (\<open>keyHigh |= temp << 60\<close>), as the source does; the second lookup reads \<open>keyHigh\<close> after
  the first update. The counter \<open>i\<close> is an \<open>int\<close> between 1 and 31.
\<close>

definition init128p_step :: "nat \<Rightarrow> u64 \<times> u64 \<times> u64 list \<Rightarrow> u64 \<times> u64 \<times> u64 list" where
  "init128p_step i st =
     (case st of (keyHigh, keyLow, rks) \<Rightarrow>
        let temp = keyHigh;
            keyHigh1 = push_bit 61 temp OR drop_bit 3 keyLow;
            keyLow1 = push_bit 61 keyLow OR drop_bit 3 temp;
            temp1 = (ucast (sbox ! unat (drop_bit 60 keyHigh1 AND 0xf)) :: u64);
            keyHigh2 = keyHigh1 OR push_bit 60 temp1;
            temp2 = (ucast (sbox ! unat (drop_bit 56 keyHigh2 AND 0xf)) :: u64);
            keyHigh3 = keyHigh2 OR push_bit 56 temp2;
            keyHigh4 = keyHigh3 XOR of_nat (i div 4);
            keyLow2 = keyLow1 XOR push_bit 62 (of_nat i)
        in (keyHigh4, keyLow2, rks[i := keyHigh4]))"

definition PRESENT_init_80 :: "PresentContext \<Rightarrow> u16 list \<Rightarrow> PresentContext" where
  "PRESENT_init_80 context key =
     (let keyHigh = (ucast (key ! 0) :: u64);
          keyLow = push_bit 48 (ucast (key ! 1) :: u64)
                   OR push_bit 32 (ucast (key ! 2))
                   OR push_bit 16 (ucast (key ! 3))
                   OR ucast (key ! 4);
          rks = (roundKeys context)[0 := push_bit 48 keyHigh OR drop_bit 16 keyLow]
      in \<lparr>roundKeys = snd (snd (fold init80_step [1..<NR_ROUNDS + 1] (keyHigh, keyLow, rks)))\<rparr>)"

definition PRESENT_init_128 :: "PresentContext \<Rightarrow> u16 list \<Rightarrow> PresentContext" where
  "PRESENT_init_128 context key =
     (let keyHigh = push_bit 48 (ucast (key ! 0) :: u64)
                    OR push_bit 32 (ucast (key ! 1))
                    OR push_bit 16 (ucast (key ! 2))
                    OR ucast (key ! 3);
          keyLow = push_bit 48 (ucast (key ! 4) :: u64)
                   OR push_bit 32 (ucast (key ! 5))
                   OR push_bit 16 (ucast (key ! 6))
                   OR ucast (key ! 7);
          rks = (roundKeys context)[0 := keyHigh]
      in \<lparr>roundKeys = snd (snd (fold init128p_step [1..<NR_ROUNDS + 1] (keyHigh, keyLow, rks)))\<rparr>)"

text \<open>
  \<open>PRESENT_init\<close> writes through its context pointer, returns nothing and has no error
  path: every \<open>keyLen\<close> other than 80 takes the \<open>else\<close> branch.
\<close>

definition PRESENT_init :: "PresentContext \<Rightarrow> u16 list \<Rightarrow> u16 \<Rightarrow> PresentContext" where
  "PRESENT_init context key keyLen =
     (if keyLen = 80 then PRESENT_init_80 context key
      else PRESENT_init_128 context key)"

subsection \<open>The layers\<close>

text \<open>A block is the array \<open>uint16_t[4]\<close>; the state is one 64-bit word.\<close>

type_synonym block64 = "u16 \<times> u16 \<times> u16 \<times> u16"

definition block_to_state :: "block64 \<Rightarrow> u64" where
  "block_to_state block =
     (case block of (b0, b1, b2, b3) \<Rightarrow>
        push_bit 48 (ucast b0) OR push_bit 32 (ucast b1) OR push_bit 16 (ucast b2) OR ucast b3)"

definition state_to_block :: "u64 \<Rightarrow> block64" where
  "state_to_block state =
     (ucast (drop_bit 48 state), ucast (drop_bit 32 state), ucast (drop_bit 16 state),
      ucast state)"

text \<open>
  The substitution loops of \<open>PRESENT_encrypt\<close> and \<open>PRESENT_decrypt\<close> differ in the table
  only (\<open>sbox\<close> and \<open>isbox\<close>); the table is the parameter \<open>sb\<close>.

  \<open>sub_mask\<close> is the value \<open>highNybble << 4 | lowNybble\<close> that the loop body computes
  from the byte \<open>pos\<close>. C computes it in \<open>int\<close>; it fits in 12 bits, so the conversion to
  64 bits loses nothing.
\<close>

definition sub_mask :: "u8 list \<Rightarrow> u8 \<Rightarrow> u64" where
  "sub_mask sb pos =
     (let highNybble = sb ! unat (drop_bit 4 pos AND 0x0f);
          lowNybble = sb ! unat (pos AND 0x0f)
      in push_bit 4 (ucast highNybble) OR ucast lowNybble)"

text \<open>
  One iteration of a substitution loop: byte \<open>i\<close> of the state, counted from the most
  significant one, is substituted, shifted back to its place and OR-ed into \<open>temp\<close>.
\<close>

definition sub_step :: "u8 list \<Rightarrow> u64 \<Rightarrow> nat \<Rightarrow> u64 \<Rightarrow> u64" where
  "sub_step sb state i temp =
     (let pos = (ucast (drop_bit (8 * (7 - i)) state) :: u8);
          mask = sub_mask sb pos;
          mask1 = push_bit (56 - 8 * i) mask
      in temp OR mask1)"

definition sBoxLayer :: "u64 \<Rightarrow> u64" where
  "sBoxLayer state = fold (sub_step sbox state) [0..<8] 0"

definition inv_sBoxLayer :: "u64 \<Rightarrow> u64" where
  "inv_sBoxLayer state = fold (sub_step isbox state) [0..<8] 0"

definition p_step :: "u64 \<Rightarrow> nat \<Rightarrow> u64 \<Rightarrow> u64" where
  "p_step state i temp =
     (let distance = 63 - i
      in temp OR push_bit (63 - PRESENT_p ! i) (drop_bit distance state AND 0x1))"

definition pLayer :: "u64 \<Rightarrow> u64" where
  "pLayer state = fold (p_step state) [0..<64] 0"

definition inv_p_step :: "u64 \<Rightarrow> nat \<Rightarrow> u64 \<Rightarrow> u64" where
  "inv_p_step state i temp =
     (let distance = 63 - PRESENT_p ! i
      in push_bit 1 temp OR (drop_bit distance state AND 0x1))"

definition inv_pLayer :: "u64 \<Rightarrow> u64" where
  "inv_pLayer state = fold (inv_p_step state) [0..<64] 0"

subsection \<open>Encryption and decryption\<close>

definition enc_round :: "u64 list \<Rightarrow> nat \<Rightarrow> u64 \<Rightarrow> u64" where
  "enc_round rks round state = pLayer (sBoxLayer (state XOR rks ! round))"

definition dec_round :: "u64 list \<Rightarrow> nat \<Rightarrow> u64 \<Rightarrow> u64" where
  "dec_round rks round state = inv_sBoxLayer (inv_pLayer (state XOR rks ! round))"

text \<open>
  The loop \<open>for (round = NR_ROUNDS; round > 0; round--)\<close> of decryption, started at
  \<open>round\<close>.
\<close>

primrec dec_rounds :: "u64 list \<Rightarrow> nat \<Rightarrow> u64 \<Rightarrow> u64" where
  "dec_rounds rks 0 state = state"
| "dec_rounds rks (Suc n) state = dec_rounds rks n (dec_round rks (Suc n) state)"

text \<open>After the loop of \<open>PRESENT_encrypt\<close> the counter \<open>round\<close> is \<open>NR_ROUNDS\<close>.\<close>

definition PRESENT_encrypt :: "PresentContext \<Rightarrow> block64 \<Rightarrow> block64" where
  "PRESENT_encrypt context block =
     (let state = block_to_state block;
          state1 = fold (enc_round (roundKeys context)) [0..<NR_ROUNDS] state;
          state2 = state1 XOR roundKeys context ! NR_ROUNDS
      in state_to_block state2)"

text \<open>After the loop of \<open>PRESENT_decrypt\<close> the counter \<open>round\<close> is 0.\<close>

definition PRESENT_decrypt :: "PresentContext \<Rightarrow> block64 \<Rightarrow> block64" where
  "PRESENT_decrypt context block =
     (let state = block_to_state block;
          state1 = dec_rounds (roundKeys context) NR_ROUNDS state;
          state2 = state1 XOR roundKeys context ! 0
      in state_to_block state2)"

section \<open>ARIA (ARIA.c)\<close>

subsection \<open>128-bit values\<close>

text \<open>
  Every 128-bit quantity of ARIA.c is an array of four 32-bit words, most significant
  word first; the model uses a 4-tuple. A function that writes an output array returns
  the tuple. Where the source passes the same array as input and output (\<open>SL1(y, y)\<close>,
  \<open>FE(P, ek2, P)\<close>, \<open>FO(W2, CK3, W2)\<close>), each callee has read what it needs of an element
  before it writes it (\<open>FO\<close> and \<open>FE\<close> copy their input first, \<open>A\<close> reads all bytes into
  locals), so the result is that of the pure function.
\<close>

type_synonym w128 = "u32 \<times> u32 \<times> u32 \<times> u32"

definition CK1 :: w128 where
  "CK1 = (0x517cc1b7, 0x27220a94, 0xfe13abe8, 0xfa9a6ee0)"

definition CK2 :: w128 where
  "CK2 = (0x6db14acc, 0x9e21c820, 0xff28b1d5, 0xef5de2b0)"

definition CK3 :: w128 where
  "CK3 = (0xdb92371d, 0x2126e970, 0x03249775, 0x04e8c90e)"

text \<open>The register \<open>KR\<close> is initialised to zero and no function of ARIA.c assigns it.\<close>

definition KR :: w128 where
  "KR = (0, 0, 0, 0)"

definition XOR_128 :: "w128 \<Rightarrow> w128 \<Rightarrow> w128" where
  "XOR_128 y x =
     (case y of (y0, y1, y2, y3) \<Rightarrow> case x of (x0, x1, x2, x3) \<Rightarrow>
        (y0 XOR x0, y1 XOR x1, y2 XOR x2, y3 XOR x3))"

definition MOV_128 :: "w128 \<Rightarrow> w128 \<Rightarrow> w128" where
  "MOV_128 y x = (case x of (x0, x1, x2, x3) \<Rightarrow> (x0, x1, x2, x3))"

definition ROL_128 :: "w128 \<Rightarrow> nat \<Rightarrow> w128" where
  "ROL_128 x n =
     (case x of (x0, x1, x2, x3) \<Rightarrow>
        (push_bit n x0 OR drop_bit (32 - n) x1,
         push_bit n x1 OR drop_bit (32 - n) x2,
         push_bit n x2 OR drop_bit (32 - n) x3,
         push_bit n x3 OR drop_bit (32 - n) x0))"

definition ROR_128 :: "w128 \<Rightarrow> nat \<Rightarrow> w128" where
  "ROR_128 x n =
     (case x of (x0, x1, x2, x3) \<Rightarrow>
        (drop_bit n x0 OR push_bit (32 - n) x3,
         drop_bit n x1 OR push_bit (32 - n) x0,
         drop_bit n x2 OR push_bit (32 - n) x1,
         drop_bit n x3 OR push_bit (32 - n) x2))"

subsection \<open>S-boxes and substitution layers\<close>

definition SB1 :: "u8 list" where
  "SB1 = [
    0x63, 0x7c, 0x77, 0x7b, 0xf2, 0x6b, 0x6f, 0xc5, 0x30, 0x01, 0x67, 0x2b, 0xfe, 0xd7, 0xab, 0x76,
    0xca, 0x82, 0xc9, 0x7d, 0xfa, 0x59, 0x47, 0xf0, 0xad, 0xd4, 0xa2, 0xaf, 0x9c, 0xa4, 0x72, 0xc0,
    0xb7, 0xfd, 0x93, 0x26, 0x36, 0x3f, 0xf7, 0xcc, 0x34, 0xa5, 0xe5, 0xf1, 0x71, 0xd8, 0x31, 0x15,
    0x04, 0xc7, 0x23, 0xc3, 0x18, 0x96, 0x05, 0x9a, 0x07, 0x12, 0x80, 0xe2, 0xeb, 0x27, 0xb2, 0x75,
    0x09, 0x83, 0x2c, 0x1a, 0x1b, 0x6e, 0x5a, 0xa0, 0x52, 0x3b, 0xd6, 0xb3, 0x29, 0xe3, 0x2f, 0x84,
    0x53, 0xd1, 0x00, 0xed, 0x20, 0xfc, 0xb1, 0x5b, 0x6a, 0xcb, 0xbe, 0x39, 0x4a, 0x4c, 0x58, 0xcf,
    0xd0, 0xef, 0xaa, 0xfb, 0x43, 0x4d, 0x33, 0x85, 0x45, 0xf9, 0x02, 0x7f, 0x50, 0x3c, 0x9f, 0xa8,
    0x51, 0xa3, 0x40, 0x8f, 0x92, 0x9d, 0x38, 0xf5, 0xbc, 0xb6, 0xda, 0x21, 0x10, 0xff, 0xf3, 0xd2,
    0xcd, 0x0c, 0x13, 0xec, 0x5f, 0x97, 0x44, 0x17, 0xc4, 0xa7, 0x7e, 0x3d, 0x64, 0x5d, 0x19, 0x73,
    0x60, 0x81, 0x4f, 0xdc, 0x22, 0x2a, 0x90, 0x88, 0x46, 0xee, 0xb8, 0x14, 0xde, 0x5e, 0x0b, 0xdb,
    0xe0, 0x32, 0x3a, 0x0a, 0x49, 0x06, 0x24, 0x5c, 0xc2, 0xd3, 0xac, 0x62, 0x91, 0x95, 0xe4, 0x79,
    0xe7, 0xc8, 0x37, 0x6d, 0x8d, 0xd5, 0x4e, 0xa9, 0x6c, 0x56, 0xf4, 0xea, 0x65, 0x7a, 0xae, 0x08,
    0xba, 0x78, 0x25, 0x2e, 0x1c, 0xa6, 0xb4, 0xc6, 0xe8, 0xdd, 0x74, 0x1f, 0x4b, 0xbd, 0x8b, 0x8a,
    0x70, 0x3e, 0xb5, 0x66, 0x48, 0x03, 0xf6, 0x0e, 0x61, 0x35, 0x57, 0xb9, 0x86, 0xc1, 0x1d, 0x9e,
    0xe1, 0xf8, 0x98, 0x11, 0x69, 0xd9, 0x8e, 0x94, 0x9b, 0x1e, 0x87, 0xe9, 0xce, 0x55, 0x28, 0xdf,
    0x8c, 0xa1, 0x89, 0x0d, 0xbf, 0xe6, 0x42, 0x68, 0x41, 0x99, 0x2d, 0x0f, 0xb0, 0x54, 0xbb, 0x16]"

definition SB2 :: "u8 list" where
  "SB2 = [
    0xe2, 0x4e, 0x54, 0xfc, 0x94, 0xc2, 0x4a, 0xcc, 0x62, 0x0d, 0x6a, 0x46, 0x3c, 0x4d, 0x8b, 0xd1,
    0x5e, 0xfa, 0x64, 0xcb, 0xb4, 0x97, 0xbe, 0x2b, 0xbc, 0x77, 0x2e, 0x03, 0xd3, 0x19, 0x59, 0xc1,
    0x1d, 0x06, 0x41, 0x6b, 0x55, 0xf0, 0x99, 0x69, 0xea, 0x9c, 0x18, 0xae, 0x63, 0xdf, 0xe7, 0xbb,
    0x00, 0x73, 0x66, 0xfb, 0x96, 0x4c, 0x85, 0xe4, 0x3a, 0x09, 0x45, 0xaa, 0x0f, 0xee, 0x10, 0xeb,
    0x2d, 0x7f, 0xf4, 0x29, 0xac, 0xcf, 0xad, 0x91, 0x8d, 0x78, 0xc8, 0x95, 0xf9, 0x2f, 0xce, 0xcd,
    0x08, 0x7a, 0x88, 0x38, 0x5c, 0x83, 0x2a, 0x28, 0x47, 0xdb, 0xb8, 0xc7, 0x93, 0xa4, 0x12, 0x53,
    0xff, 0x87, 0x0e, 0x31, 0x36, 0x21, 0x58, 0x48, 0x01, 0x8e, 0x37, 0x74, 0x32, 0xca, 0xe9, 0xb1,
    0xb7, 0xab, 0x0c, 0xd7, 0xc4, 0x56, 0x42, 0x26, 0x07, 0x98, 0x60, 0xd9, 0xb6, 0xb9, 0x11, 0x40,
    0xec, 0x20, 0x8c, 0xbd, 0xa0, 0xc9, 0x84, 0x04, 0x49, 0x23, 0xf1, 0x4f, 0x50, 0x1f, 0x13, 0xdc,
    0xd8, 0xc0, 0x9e, 0x57, 0xe3, 0xc3, 0x7b, 0x65, 0x3b, 0x02, 0x8f, 0x3e, 0xe8, 0x25, 0x92, 0xe5,
    0x15, 0xdd, 0xfd, 0x17, 0xa9, 0xbf, 0xd4, 0x9a, 0x7e, 0xc5, 0x39, 0x67, 0xfe, 0x76, 0x9d, 0x43,
    0xa7, 0xe1, 0xd0, 0xf5, 0x68, 0xf2, 0x1b, 0x34, 0x70, 0x05, 0xa3, 0x8a, 0xd5, 0x79, 0x86, 0xa8,
    0x30, 0xc6, 0x51, 0x4b, 0x1e, 0xa6, 0x27, 0xf6, 0x35, 0xd2, 0x6e, 0x24, 0x16, 0x82, 0x5f, 0xda,
    0xe6, 0x75, 0xa2, 0xef, 0x2c, 0xb2, 0x1c, 0x9f, 0x5d, 0x6f, 0x80, 0x0a, 0x72, 0x44, 0x9b, 0x6c,
    0x90, 0x0b, 0x5b, 0x33, 0x7d, 0x5a, 0x52, 0xf3, 0x61, 0xa1, 0xf7, 0xb0, 0xd6, 0x3f, 0x7c, 0x6d,
    0xed, 0x14, 0xe0, 0xa5, 0x3d, 0x22, 0xb3, 0xf8, 0x89, 0xde, 0x71, 0x1a, 0xaf, 0xba, 0xb5, 0x81]"

definition SB3 :: "u8 list" where
  "SB3 = [
    0x52, 0x09, 0x6a, 0xd5, 0x30, 0x36, 0xa5, 0x38, 0xbf, 0x40, 0xa3, 0x9e, 0x81, 0xf3, 0xd7, 0xfb,
    0x7c, 0xe3, 0x39, 0x82, 0x9b, 0x2f, 0xff, 0x87, 0x34, 0x8e, 0x43, 0x44, 0xc4, 0xde, 0xe9, 0xcb,
    0x54, 0x7b, 0x94, 0x32, 0xa6, 0xc2, 0x23, 0x3d, 0xee, 0x4c, 0x95, 0x0b, 0x42, 0xfa, 0xc3, 0x4e,
    0x08, 0x2e, 0xa1, 0x66, 0x28, 0xd9, 0x24, 0xb2, 0x76, 0x5b, 0xa2, 0x49, 0x6d, 0x8b, 0xd1, 0x25,
    0x72, 0xf8, 0xf6, 0x64, 0x86, 0x68, 0x98, 0x16, 0xd4, 0xa4, 0x5c, 0xcc, 0x5d, 0x65, 0xb6, 0x92,
    0x6c, 0x70, 0x48, 0x50, 0xfd, 0xed, 0xb9, 0xda, 0x5e, 0x15, 0x46, 0x57, 0xa7, 0x8d, 0x9d, 0x84,
    0x90, 0xd8, 0xab, 0x00, 0x8c, 0xbc, 0xd3, 0x0a, 0xf7, 0xe4, 0x58, 0x05, 0xb8, 0xb3, 0x45, 0x06,
    0xd0, 0x2c, 0x1e, 0x8f, 0xca, 0x3f, 0x0f, 0x02, 0xc1, 0xaf, 0xbd, 0x03, 0x01, 0x13, 0x8a, 0x6b,
    0x3a, 0x91, 0x11, 0x41, 0x4f, 0x67, 0xdc, 0xea, 0x97, 0xf2, 0xcf, 0xce, 0xf0, 0xb4, 0xe6, 0x73,
    0x96, 0xac, 0x74, 0x22, 0xe7, 0xad, 0x35, 0x85, 0xe2, 0xf9, 0x37, 0xe8, 0x1c, 0x75, 0xdf, 0x6e,
    0x47, 0xf1, 0x1a, 0x71, 0x1d, 0x29, 0xc5, 0x89, 0x6f, 0xb7, 0x62, 0x0e, 0xaa, 0x18, 0xbe, 0x1b,
    0xfc, 0x56, 0x3e, 0x4b, 0xc6, 0xd2, 0x79, 0x20, 0x9a, 0xdb, 0xc0, 0xfe, 0x78, 0xcd, 0x5a, 0xf4,
    0x1f, 0xdd, 0xa8, 0x33, 0x88, 0x07, 0xc7, 0x31, 0xb1, 0x12, 0x10, 0x59, 0x27, 0x80, 0xec, 0x5f,
    0x60, 0x51, 0x7f, 0xa9, 0x19, 0xb5, 0x4a, 0x0d, 0x2d, 0xe5, 0x7a, 0x9f, 0x93, 0xc9, 0x9c, 0xef,
    0xa0, 0xe0, 0x3b, 0x4d, 0xae, 0x2a, 0xf5, 0xb0, 0xc8, 0xeb, 0xbb, 0x3c, 0x83, 0x53, 0x99, 0x61,
    0x17, 0x2b, 0x04, 0x7e, 0xba, 0x77, 0xd6, 0x26, 0xe1, 0x69, 0x14, 0x63, 0x55, 0x21, 0x0c, 0x7d]"

definition SB4 :: "u8 list" where
  "SB4 = [
    0x30, 0x68, 0x99, 0x1b, 0x87, 0xb9, 0x21, 0x78, 0x50, 0x39, 0xdb, 0xe1, 0x72, 0x09, 0x62, 0x3c,
    0x3e, 0x7e, 0x5e, 0x8e, 0xf1, 0xa0, 0xcc, 0xa3, 0x2a, 0x1d, 0xfb, 0xb6, 0xd6, 0x20, 0xc4, 0x8d,
    0x81, 0x65, 0xf5, 0x89, 0xcb, 0x9d, 0x77, 0xc6, 0x57, 0x43, 0x56, 0x17, 0xd4, 0x40, 0x1a, 0x4d,
    0xc0, 0x63, 0x6c, 0xe3, 0xb7, 0xc8, 0x64, 0x6a, 0x53, 0xaa, 0x38, 0x98, 0x0c, 0xf4, 0x9b, 0xed,
    0x7f, 0x22, 0x76, 0xaf, 0xdd, 0x3a, 0x0b, 0x58, 0x67, 0x88, 0x06, 0xc3, 0x35, 0x0d, 0x01, 0x8b,
    0x8c, 0xc2, 0xe6, 0x5f, 0x02, 0x24, 0x75, 0x93, 0x66, 0x1e, 0xe5, 0xe2, 0x54, 0xd8, 0x10, 0xce,
    0x7a, 0xe8, 0x08, 0x2c, 0x12, 0x97, 0x32, 0xab, 0xb4, 0x27, 0x0a, 0x23, 0xdf, 0xef, 0xca, 0xd9,
    0xb8, 0xfa, 0xdc, 0x31, 0x6b, 0xd1, 0xad, 0x19, 0x49, 0xbd, 0x51, 0x96, 0xee, 0xe4, 0xa8, 0x41,
    0xda, 0xff, 0xcd, 0x55, 0x86, 0x36, 0xbe, 0x61, 0x52, 0xf8, 0xbb, 0x0e, 0x82, 0x48, 0x69, 0x9a,
    0xe0, 0x47, 0x9e, 0x5c, 0x04, 0x4b, 0x34, 0x15, 0x79, 0x26, 0xa7, 0xde, 0x29, 0xae, 0x92, 0xd7,
    0x84, 0xe9, 0xd2, 0xba, 0x5d, 0xf3, 0xc5, 0xb0, 0xbf, 0xa4, 0x3b, 0x71, 0x44, 0x46, 0x2b, 0xfc,
    0xeb, 0x6f, 0xd5, 0xf6, 0x14, 0xfe, 0x7c, 0x70, 0x5a, 0x7d, 0xfd, 0x2f, 0x18, 0x83, 0x16, 0xa5,
    0x91, 0x1f, 0x05, 0x95, 0x74, 0xa9, 0xc1, 0x5b, 0x4a, 0x85, 0x6d, 0x13, 0x07, 0x4f, 0x4e, 0x45,
    0xb2, 0x0f, 0xc9, 0x1c, 0xa6, 0xbc, 0xec, 0x73, 0x90, 0x7b, 0xcf, 0x59, 0x8f, 0xa1, 0xf9, 0x2d,
    0xf2, 0xb1, 0x00, 0x94, 0x37, 0x9f, 0xd0, 0x2e, 0x9c, 0x6e, 0x28, 0x3f, 0x80, 0xf0, 0x3d, 0xd3,
    0x25, 0x8a, 0xb5, 0xe7, 0x42, 0xb3, 0xc7, 0xea, 0xf7, 0x4c, 0x11, 0x33, 0x03, 0xa2, 0xac, 0x60]"

text \<open>
  One output word of \<open>SL1\<close> and \<open>SL2\<close>. A table entry is an 8-bit value that C promotes
  to a 32-bit \<open>int\<close> before shifting; the result is stored in an unsigned 32-bit word,
  so the model shifts in 32-bit words.
\<close>

definition SL1_word :: "u32 \<Rightarrow> u32" where
  "SL1_word w =
     push_bit 24 (ucast (SB1 ! unat (ucast (drop_bit 24 w) :: u8)))
     OR push_bit 16 (ucast (SB2 ! unat (ucast (drop_bit 16 w) :: u8)))
     OR push_bit 8 (ucast (SB3 ! unat (ucast (drop_bit 8 w) :: u8)))
     OR ucast (SB4 ! unat (ucast (drop_bit 0 w) :: u8))"

definition SL1 :: "w128 \<Rightarrow> w128" where
  "SL1 input =
     (case input of (i0, i1, i2, i3) \<Rightarrow>
        (SL1_word i0, SL1_word i1, SL1_word i2, SL1_word i3))"

definition SL2_word :: "u32 \<Rightarrow> u32" where
  "SL2_word w =
     push_bit 24 (ucast (SB3 ! unat (ucast (drop_bit 24 w) :: u8)))
     OR push_bit 16 (ucast (SB4 ! unat (ucast (drop_bit 16 w) :: u8)))
     OR push_bit 8 (ucast (SB1 ! unat (ucast (drop_bit 8 w) :: u8)))
     OR ucast (SB2 ! unat (ucast (drop_bit 0 w) :: u8))"

definition SL2 :: "w128 \<Rightarrow> w128" where
  "SL2 input =
     (case input of (i0, i1, i2, i3) \<Rightarrow>
        (SL2_word i0, SL2_word i1, SL2_word i2, SL2_word i3))"

subsection \<open>Diffusion layer\<close>

text \<open>\<open>y0 << 24 | y1 << 16 | y2 << 8 | y3\<close> on bytes promoted to 32 bits.\<close>

definition pack32 :: "u8 \<Rightarrow> u8 \<Rightarrow> u8 \<Rightarrow> u8 \<Rightarrow> u32" where
  "pack32 a b c d = push_bit 24 (ucast a) OR push_bit 16 (ucast b) OR push_bit 8 (ucast c) OR ucast d"

definition A :: "w128 \<Rightarrow> w128" where
  "A input =
     (case input of (i0, i1, i2, i3) \<Rightarrow>
        let
            x0 = (ucast (drop_bit 24 i0) :: u8);
            x1 = (ucast (drop_bit 16 i0) :: u8);
            x2 = (ucast (drop_bit 8 i0) :: u8);
            x3 = (ucast i0 :: u8);
            x4 = (ucast (drop_bit 24 i1) :: u8);
            x5 = (ucast (drop_bit 16 i1) :: u8);
            x6 = (ucast (drop_bit 8 i1) :: u8);
            x7 = (ucast i1 :: u8);
            x8 = (ucast (drop_bit 24 i2) :: u8);
            x9 = (ucast (drop_bit 16 i2) :: u8);
            x10 = (ucast (drop_bit 8 i2) :: u8);
            x11 = (ucast i2 :: u8);
            x12 = (ucast (drop_bit 24 i3) :: u8);
            x13 = (ucast (drop_bit 16 i3) :: u8);
            x14 = (ucast (drop_bit 8 i3) :: u8);
            x15 = (ucast i3 :: u8);
            y0 = x3 XOR x4 XOR x6 XOR x8 XOR x9 XOR x13 XOR x14;
            y1 = x2 XOR x5 XOR x7 XOR x8 XOR x9 XOR x12 XOR x15;
            y2 = x1 XOR x4 XOR x6 XOR x10 XOR x11 XOR x12 XOR x15;
            y3 = x0 XOR x5 XOR x7 XOR x10 XOR x11 XOR x13 XOR x14;
            y4 = x0 XOR x2 XOR x5 XOR x8 XOR x11 XOR x14 XOR x15;
            y5 = x1 XOR x3 XOR x4 XOR x9 XOR x10 XOR x14 XOR x15;
            y6 = x0 XOR x2 XOR x7 XOR x9 XOR x10 XOR x12 XOR x13;
            y7 = x1 XOR x3 XOR x6 XOR x8 XOR x11 XOR x12 XOR x13;
            y8 = x0 XOR x1 XOR x4 XOR x7 XOR x10 XOR x13 XOR x15;
            y9 = x0 XOR x1 XOR x5 XOR x6 XOR x11 XOR x12 XOR x14;
            y10 = x2 XOR x3 XOR x5 XOR x6 XOR x8 XOR x13 XOR x15;
            y11 = x2 XOR x3 XOR x4 XOR x7 XOR x9 XOR x12 XOR x14;
            y12 = x1 XOR x2 XOR x6 XOR x7 XOR x9 XOR x11 XOR x12;
            y13 = x0 XOR x3 XOR x6 XOR x7 XOR x8 XOR x10 XOR x13;
            y14 = x0 XOR x3 XOR x4 XOR x5 XOR x9 XOR x11 XOR x14;
            y15 = x1 XOR x2 XOR x4 XOR x5 XOR x8 XOR x10 XOR x15
        in (pack32 y0 y1 y2 y3, pack32 y4 y5 y6 y7,
            pack32 y8 y9 y10 y11, pack32 y12 y13 y14 y15))"

subsection \<open>Round functions\<close>

definition FO :: "w128 \<Rightarrow> w128 \<Rightarrow> w128" where
  "FO D RK =
     (let y = MOV_128 D D;
          y = XOR_128 y RK;
          y = SL1 y
      in A y)"

definition FE :: "w128 \<Rightarrow> w128 \<Rightarrow> w128" where
  "FE D RK =
     (let y = MOV_128 D D;
          y = XOR_128 y RK;
          y = SL2 y
      in A y)"

subsection \<open>Global registers and round keys\<close>

text \<open>
  ARIA.c keeps the registers \<open>W0..W3\<close> and the round keys \<open>ek1..ek13\<close>, \<open>dk1..dk13\<close> in
  global arrays. They are the state that every function of the model takes and returns.
\<close>

record aria_state =
  W0 :: w128
  W1 :: w128
  W2 :: w128
  W3 :: w128
  ek1 :: w128
  ek2 :: w128
  ek3 :: w128
  ek4 :: w128
  ek5 :: w128
  ek6 :: w128
  ek7 :: w128
  ek8 :: w128
  ek9 :: w128
  ek10 :: w128
  ek11 :: w128
  ek12 :: w128
  ek13 :: w128
  dk1 :: w128
  dk2 :: w128
  dk3 :: w128
  dk4 :: w128
  dk5 :: w128
  dk6 :: w128
  dk7 :: w128
  dk8 :: w128
  dk9 :: w128
  dk10 :: w128
  dk11 :: w128
  dk12 :: w128
  dk13 :: w128

definition generateEncryptionKeys :: "aria_state \<Rightarrow> aria_state" where
  "generateEncryptionKeys s =
     (let s = s\<lparr>ek1 := ROR_128 (W1 s) 19\<rparr>;
          s = s\<lparr>ek1 := XOR_128 (ek1 s) (W0 s)\<rparr>;
          s = s\<lparr>ek2 := ROR_128 (W2 s) 19\<rparr>;
          s = s\<lparr>ek2 := XOR_128 (ek2 s) (W1 s)\<rparr>;
          s = s\<lparr>ek3 := ROR_128 (W3 s) 19\<rparr>;
          s = s\<lparr>ek3 := XOR_128 (ek3 s) (W2 s)\<rparr>;
          s = s\<lparr>ek4 := ROR_128 (W0 s) 19\<rparr>;
          s = s\<lparr>ek4 := XOR_128 (ek4 s) (W3 s)\<rparr>;
          s = s\<lparr>ek5 := ROR_128 (W1 s) 31\<rparr>;
          s = s\<lparr>ek5 := XOR_128 (ek5 s) (W0 s)\<rparr>;
          s = s\<lparr>ek6 := ROR_128 (W2 s) 31\<rparr>;
          s = s\<lparr>ek6 := XOR_128 (ek6 s) (W1 s)\<rparr>;
          s = s\<lparr>ek7 := ROR_128 (W3 s) 31\<rparr>;
          s = s\<lparr>ek7 := XOR_128 (ek7 s) (W2 s)\<rparr>;
          s = s\<lparr>ek8 := ROR_128 (W0 s) 31\<rparr>;
          s = s\<lparr>ek8 := XOR_128 (ek8 s) (W3 s)\<rparr>;
          s = s\<lparr>ek9 := ROL_128 (W1 s) 31\<rparr>;
          temp = ROL_128 (ek9 s) 30;
          s = s\<lparr>ek9 := MOV_128 (ek9 s) temp\<rparr>;
          s = s\<lparr>ek9 := XOR_128 (ek9 s) (W0 s)\<rparr>;
          s = s\<lparr>ek10 := ROL_128 (W2 s) 31\<rparr>;
          temp = ROL_128 (ek10 s) 30;
          s = s\<lparr>ek10 := MOV_128 (ek10 s) temp\<rparr>;
          s = s\<lparr>ek10 := XOR_128 (ek10 s) (W1 s)\<rparr>;
          s = s\<lparr>ek11 := ROL_128 (W3 s) 31\<rparr>;
          temp = ROL_128 (ek11 s) 30;
          s = s\<lparr>ek11 := MOV_128 (ek11 s) temp\<rparr>;
          s = s\<lparr>ek11 := XOR_128 (ek11 s) (W2 s)\<rparr>;
          s = s\<lparr>ek12 := ROL_128 (W0 s) 31\<rparr>;
          temp = ROL_128 (ek12 s) 30;
          s = s\<lparr>ek12 := MOV_128 (ek12 s) temp\<rparr>;
          s = s\<lparr>ek12 := XOR_128 (ek12 s) (W3 s)\<rparr>;
          s = s\<lparr>ek13 := ROL_128 (W1 s) 31\<rparr>;
          s = s\<lparr>ek13 := XOR_128 (ek13 s) (W0 s)\<rparr>
      in s)"

definition generateDecryptionKeys :: "aria_state \<Rightarrow> aria_state" where
  "generateDecryptionKeys s =
     (let s = s\<lparr>dk1 := MOV_128 (dk1 s) (ek13 s)\<rparr>;
          s = s\<lparr>dk2 := A (ek12 s)\<rparr>;
          s = s\<lparr>dk3 := A (ek11 s)\<rparr>;
          s = s\<lparr>dk4 := A (ek10 s)\<rparr>;
          s = s\<lparr>dk5 := A (ek9 s)\<rparr>;
          s = s\<lparr>dk6 := A (ek8 s)\<rparr>;
          s = s\<lparr>dk7 := A (ek7 s)\<rparr>;
          s = s\<lparr>dk8 := A (ek6 s)\<rparr>;
          s = s\<lparr>dk9 := A (ek5 s)\<rparr>;
          s = s\<lparr>dk10 := A (ek4 s)\<rparr>;
          s = s\<lparr>dk11 := A (ek3 s)\<rparr>;
          s = s\<lparr>dk12 := A (ek2 s)\<rparr>;
          s = s\<lparr>dk13 := MOV_128 (dk13 s) (ek1 s)\<rparr>
      in s)"

subsection \<open>Encryption and decryption\<close>

text \<open>
  Both functions return the output block \<open>P\<close> and the globals as they leave them. The
  arrays \<open>block\<close>, \<open>key\<close> and \<open>P\<close> of the caller are taken to be distinct from the globals.
\<close>

definition ARIA_encrypt :: "aria_state \<Rightarrow> w128 \<Rightarrow> w128 \<Rightarrow> w128 \<times> aria_state" where
  "ARIA_encrypt s0 block key =
     (let s = s0\<lparr>W0 := MOV_128 (W0 s0) key\<rparr>;
          s = s\<lparr>W1 := FO (W0 s) CK1\<rparr>;
          s = s\<lparr>W1 := XOR_128 (W1 s) KR\<rparr>;
          s = s\<lparr>W2 := FE (W1 s) CK2\<rparr>;
          s = s\<lparr>W2 := XOR_128 (W2 s) (W0 s)\<rparr>;
          s = s\<lparr>W3 := FO (W2 s) CK3\<rparr>;
          s = s\<lparr>W3 := XOR_128 (W3 s) (W1 s)\<rparr>;
          s = generateEncryptionKeys s;
          P = FO block (ek1 s);
          P = FE P (ek2 s);
          P = FO P (ek3 s);
          P = FE P (ek4 s);
          P = FO P (ek5 s);
          P = FE P (ek6 s);
          P = FO P (ek7 s);
          P = FE P (ek8 s);
          P = FO P (ek9 s);
          P = FE P (ek10 s);
          P = FO P (ek11 s);
          P = XOR_128 P (ek12 s);
          P = SL2 P;
          P = XOR_128 P (ek13 s)
      in (P, s))"

text \<open>
  \<open>ARIA_decrypt\<close> as it is written: the third transform is stored into \<open>W2\<close>
  (\<open>FO(W2, CK3, W2)\<close>), \<open>W3\<close> is XOR-ed with \<open>W1\<close> from its previous contents, and
  \<open>generateEncryptionKeys\<close> is not called before \<open>generateDecryptionKeys\<close>.
\<close>

definition ARIA_decrypt :: "aria_state \<Rightarrow> w128 \<Rightarrow> w128 \<Rightarrow> w128 \<times> aria_state" where
  "ARIA_decrypt s0 block key =
     (let s = s0\<lparr>W0 := MOV_128 (W0 s0) key\<rparr>;
          s = s\<lparr>W1 := FO (W0 s) CK1\<rparr>;
          s = s\<lparr>W1 := XOR_128 (W1 s) KR\<rparr>;
          s = s\<lparr>W2 := FE (W1 s) CK2\<rparr>;
          s = s\<lparr>W2 := XOR_128 (W2 s) (W0 s)\<rparr>;
          s = s\<lparr>W2 := FO (W2 s) CK3\<rparr>;
          s = s\<lparr>W3 := XOR_128 (W3 s) (W1 s)\<rparr>;
          s = generateDecryptionKeys s;
          P = FO block (dk1 s);
          P = FE P (dk2 s);
          P = FO P (dk3 s);
          P = FE P (dk4 s);
          P = FO P (dk5 s);
          P = FE P (dk6 s);
          P = FO P (dk7 s);
          P = FE P (dk8 s);
          P = FO P (dk9 s);
          P = FE P (dk10 s);
          P = FO P (dk11 s);
          P = XOR_128 P (dk12 s);
          P = SL2 P;
          P = XOR_128 P (dk13 s)
      in (P, s))"

section \<open>The interface of the specification\<close>

text \<open>
  The specification describes schedule derivation as
  \<open>derive_schedule(cipher, key) -> Schedule | Error(InvalidKeySize)\<close>. The C functions
  behind it, \<open>PRESENT_init\<close> and \<open>SIMON_init\<close>, return \<open>void\<close> and leave a schedule in
  the context on every path; seen through the interface of the specification their
  outcome is therefore always a schedule, never the error.
\<close>

datatype error = InvalidKeySize

definition PRESENT_derive_schedule ::
    "PresentContext \<Rightarrow> u16 list \<Rightarrow> u16 \<Rightarrow> error + PresentContext" where
  "PRESENT_derive_schedule context key keyLen = Inr (PRESENT_init context key keyLen)"

definition SIMON_derive_schedule ::
    "SimonContext \<Rightarrow> u64 list \<Rightarrow> u16 \<Rightarrow> error + SimonContext" where
  "SIMON_derive_schedule context key keyLen = Inr (SIMON_init context key keyLen)"


section \<open>Key-length dispatch\<close>

text \<open>
  C10. Key-length dispatch never rejects an input: for every \<open>keyLen\<close> different from 80,
  \<open>PRESENT_init\<close> runs the 128-bit branch and yields the schedule of
  \<open>PRESENT_init key 128\<close>; for every \<open>keyLen\<close> different from 128 and 192, \<open>SIMON_init\<close>
  runs the 256-bit branch and yields the context of \<open>SIMON_init key 256\<close>. Both functions
  are total and their result type has no error value.
\<close>

theorem init_dispatch_total:
  "(keyLen \<noteq> 80 \<longrightarrow> PRESENT_init pc pkey keyLen = PRESENT_init pc pkey 128) \<and>
   (keyLen \<noteq> 128 \<and> keyLen \<noteq> 192 \<longrightarrow> SIMON_init sc skey keyLen = SIMON_init sc skey 256)"
  by (simp add: PRESENT_init_def SIMON_init_def)

theorem init_dispatch_total_witness:
  "(64 :: u16) \<noteq> 80 \<and> (64 :: u16) \<noteq> 128 \<and> (64 :: u16) \<noteq> 192 \<and>
   PRESENT_init \<lparr>roundKeys = replicate 32 0\<rparr> (replicate 8 0) 64
     = PRESENT_init \<lparr>roundKeys = replicate 32 0\<rparr> (replicate 8 0) 128 \<and>
   SIMON_init \<lparr>nrSubkeys = 0, subkeys = replicate 72 0\<rparr> (replicate 4 0) 64
     = SIMON_init \<lparr>nrSubkeys = 0, subkeys = replicate 72 0\<rparr> (replicate 4 0) 256"
  using init_dispatch_total [of 64 "\<lparr>roundKeys = replicate 32 0\<rparr>" "replicate 8 0"
      "\<lparr>nrSubkeys = 0, subkeys = replicate 72 0\<rparr>" "replicate 4 0"]
  by simp

text \<open>
  C3, as the specification states it, asks for the error \<open>InvalidKeySize\<close> and no schedule
  at an unsupported key length. At \<open>keyLen = 64\<close> for PRESENT and \<open>keyLen = 100\<close> for
  SIMON the code signals no error and produces the schedule of the widest key size.
\<close>

theorem derive_schedule_unsupported_counterexample:
  "PRESENT_derive_schedule \<lparr>roundKeys = replicate 32 0\<rparr> (replicate 8 0) 64
     \<noteq> Inl InvalidKeySize \<and>
   PRESENT_derive_schedule \<lparr>roundKeys = replicate 32 0\<rparr> (replicate 8 0) 64
     = Inr (PRESENT_init \<lparr>roundKeys = replicate 32 0\<rparr> (replicate 8 0) 128) \<and>
   SIMON_derive_schedule \<lparr>nrSubkeys = 0, subkeys = replicate 72 0\<rparr> (replicate 4 0) 100
     \<noteq> Inl InvalidKeySize \<and>
   SIMON_derive_schedule \<lparr>nrSubkeys = 0, subkeys = replicate 72 0\<rparr> (replicate 4 0) 100
     = Inr (SIMON_init \<lparr>nrSubkeys = 0, subkeys = replicate 72 0\<rparr> (replicate 4 0) 256)"
  by (simp add: PRESENT_derive_schedule_def SIMON_derive_schedule_def PRESENT_init_def
      SIMON_init_def)

text \<open>
  C3 (amended). Deriving a schedule never fails with \<open>InvalidKeySize\<close>. With an
  unsupported key length (other than 80 and 128 for PRESENT, other than 128, 192 and 256
  for SIMON) a schedule is produced all the same: PRESENT runs its 128-bit branch, SIMON
  its 256-bit branch with 72 subkeys.
\<close>

theorem derive_schedule_unsupported:
  "PRESENT_derive_schedule pc pkey keyLen \<noteq> Inl InvalidKeySize \<and>
   SIMON_derive_schedule sc skey keyLen \<noteq> Inl InvalidKeySize \<and>
   (keyLen \<noteq> 80 \<and> keyLen \<noteq> 128 \<longrightarrow>
      PRESENT_derive_schedule pc pkey keyLen = Inr (PRESENT_init_128 pc pkey)) \<and>
   (keyLen \<noteq> 128 \<and> keyLen \<noteq> 192 \<and> keyLen \<noteq> 256 \<longrightarrow>
      SIMON_derive_schedule sc skey keyLen = Inr (SIMON_init_256 sc skey) \<and>
      nrSubkeys (SIMON_init sc skey keyLen) = 72)"
  by (simp add: PRESENT_derive_schedule_def SIMON_derive_schedule_def PRESENT_init_def
      SIMON_init_def SIMON_init_256_def Let_def)

theorem derive_schedule_unsupported_witness:
  "(64 :: u16) \<noteq> 80 \<and> (64 :: u16) \<noteq> 128 \<and> (64 :: u16) \<noteq> 192 \<and> (64 :: u16) \<noteq> 256 \<and>
   PRESENT_derive_schedule \<lparr>roundKeys = replicate 32 0\<rparr> (replicate 8 0) 64
     = Inr (PRESENT_init_128 \<lparr>roundKeys = replicate 32 0\<rparr> (replicate 8 0)) \<and>
   SIMON_derive_schedule \<lparr>nrSubkeys = 0, subkeys = replicate 72 0\<rparr> (replicate 4 0) 64
     = Inr (SIMON_init_256 \<lparr>nrSubkeys = 0, subkeys = replicate 72 0\<rparr> (replicate 4 0))"
  using derive_schedule_unsupported [of "\<lparr>roundKeys = replicate 32 0\<rparr>" "replicate 8 0" 64
      "\<lparr>nrSubkeys = 0, subkeys = replicate 72 0\<rparr>" "replicate 4 0"]
  by simp

end
